theory Spec2Isabelle
  imports Main
begin

section \<open>JavaScript values that reach the session code\<close>

text \<open>
  The client code handles tokens and messages typed \<^verbatim>\<open>string | null\<close>, and reads them
  from parsed JSON of type \<^verbatim>\<open>any\<close>, where a missing field is \<^verbatim>\<open>undefined\<close>.
  \<open>truthy\<close> is JavaScript's truthiness on these values (\<^verbatim>\<open>if (token)\<close>, \<^verbatim>\<open>!token\<close>, \<^verbatim>\<open>!!token\<close>,
  \<^verbatim>\<open>a || b\<close>); \<open>toString\<close> is the conversion a template literal and
  \<^verbatim>\<open>localStorage.setItem\<close> apply.
\<close>

datatype jsval = Null | Undefined | Str string

fun truthy :: "jsval \<Rightarrow> bool" where
  "truthy Null = False"
| "truthy Undefined = False"
| "truthy (Str s) = (s \<noteq> [])"

fun toString :: "jsval \<Rightarrow> string" where
  "toString Null = ''null''"
| "toString Undefined = ''undefined''"
| "toString (Str s) = s"

definition or_else :: "jsval \<Rightarrow> jsval \<Rightarrow> jsval" where
  \<comment> \<open>\<^verbatim>\<open>a || b\<close>\<close>
  "or_else a b = (if truthy a then a else b)"

section \<open>Client persistence: localStorage\<close>

type_synonym localStorage = "string \<rightharpoonup> string"

definition getItem :: "localStorage \<Rightarrow> string \<Rightarrow> jsval" where
  \<comment> \<open>\<^verbatim>\<open>localStorage.getItem(key)\<close>: the stored string, or \<^verbatim>\<open>null\<close>\<close>
  "getItem ls k = (case ls k of None \<Rightarrow> Null | Some v \<Rightarrow> Str v)"

definition setItem :: "localStorage \<Rightarrow> string \<Rightarrow> jsval \<Rightarrow> localStorage" where
  \<comment> \<open>\<^verbatim>\<open>localStorage.setItem(key, value)\<close>: the value is stored as a string\<close>
  "setItem ls k v = ls(k \<mapsto> toString v)"

definition removeItem :: "localStorage \<Rightarrow> string \<Rightarrow> localStorage" where
  "removeItem ls k = ls(k := None)"

section \<open>Requests, responses and the effects of a handler\<close>

datatype field = S string | N int

record request =
  http_method :: string
  url :: string
  headers :: "(string \<times> string) list"
  body :: "(string \<times> field) list"

text \<open>
  The body of a response: an object of which the code reads the fields
  \<^verbatim>\<open>token\<close> and \<^verbatim>\<open>message\<close>, or an array (the items, the transactions), of which the
  model keeps the ids, or a body that is not JSON, on which \<^verbatim>\<open>response.json()\<close> rejects.
\<close>

datatype json = Obj jsval jsval | Arr "string list" | NotJson

fun token_of :: "json \<Rightarrow> jsval" where
  "token_of (Obj t m) = t"
| "token_of (Arr xs) = Undefined"
| "token_of NotJson = Undefined"

fun message_of :: "json \<Rightarrow> jsval" where
  "message_of (Obj t m) = m"
| "message_of (Arr xs) = Undefined"
| "message_of NotJson = Undefined"

text \<open>
  What the network answers to one request: no answer at all (the promise of
  \<^verbatim>\<open>fetch\<close> or \<^verbatim>\<open>axios\<close> rejects), or a status and a body.
\<close>

datatype http_result = NetworkFailure | Http nat json

definition ok :: "nat \<Rightarrow> bool" where
  \<comment> \<open>\<^verbatim>\<open>response.ok\<close>, and the statuses on which \<^verbatim>\<open>axios\<close> resolves\<close>
  "ok status = (200 \<le> status \<and> status < 300)"

text \<open>
  Everything a handler does besides touching the session (the token held by the
  \<^verbatim>\<open>AuthProvider\<close> and the localStorage) is recorded in order in a trace: the requests
  it sends and the calls of its component's state setters.
\<close>

datatype effect =
    Fetch request
  | SetError jsval
  | SetItems json
  | SetTransactions json
  | OnAddItem json
  | ResetForm
  | Navigate string
  | Alert string
  | Reload

record client =
  storage :: localStorage
  trace :: "effect list"

definition emit :: "effect \<Rightarrow> ('a client_scheme) \<Rightarrow> ('a client_scheme)" where
  "emit e c = c\<lparr>trace := trace c @ [e]\<rparr>"

definition requests :: "('a client_scheme) \<Rightarrow> request list" where
  "requests c = concat (map (\<lambda>e. case e of Fetch r \<Rightarrow> [r] | _ \<Rightarrow> []) (trace c))"

datatype gate = Anonymous | Authenticated

datatype ('s, 'a) completion = Resolved 's 'a | Rejected 's

fun client_of :: "('s, 'a) completion \<Rightarrow> 's" where
  "client_of (Resolved c v) = c"
| "client_of (Rejected c) = c"


definition useContext :: "'a \<Rightarrow> 'a option \<Rightarrow> 'a" where
  \<comment> \<open>React: the value of the nearest enclosing Provider, or else the default that
      \<^verbatim>\<open>createContext\<close> was given\<close>
  "useContext dflt provider = (case provider of None \<Rightarrow> dflt | Some v \<Rightarrow> v)"

definition bearer :: "jsval \<Rightarrow> string \<times> string" where
  \<comment> \<open>\<^verbatim>\<open>Authorization: `Bearer ${token}`\<close>\<close>
  "bearer t = (''Authorization'', ''Bearer '' @ toString t)"

definition fetch_json :: "http_result \<Rightarrow> (nat \<times> json) option" where
  \<comment> \<open>\<^verbatim>\<open>const response = await fetch(...); const data = await response.json()\<close> inside
      \<^verbatim>\<open>try\<close>: \<open>None\<close> when either promise rejects and control passes to \<^verbatim>\<open>catch\<close>\<close>
  "fetch_json res =
     (case res of
        NetworkFailure \<Rightarrow> None
      | Http status NotJson \<Rightarrow> None
      | Http status data \<Rightarrow> Some (status, data))"

definition generic_error :: jsval where
  "generic_error = Str ''An error occurred. Please try again.''"

definition API_URL :: string where
  "API_URL = ''http://localhost:5000/api''"

section \<open>First client of src/server/index.js: a token context with login and logout\<close>

text \<open>
  \<^verbatim>\<open>AuthProvider\<close> keeps the token in React state, initialised from
  \<^verbatim>\<open>localStorage.getItem('authToken')\<close>; \<^verbatim>\<open>login\<close> and \<^verbatim>\<open>logout\<close> write the state and
  the storage.
\<close>

record token_client = client +
  token :: jsval

definition AuthProvider_1 :: "localStorage \<Rightarrow> token_client" where
  "AuthProvider_1 ls = \<lparr>storage = ls, trace = [], token = getItem ls ''authToken''\<rparr>"

definition login_1 :: "token_client \<Rightarrow> jsval \<Rightarrow> token_client" where
  "login_1 c t = c\<lparr>token := t, storage := setItem (storage c) ''authToken'' t\<rparr>"

definition logout_1 :: "token_client \<Rightarrow> token_client" where
  "logout_1 c = c\<lparr>token := Null, storage := removeItem (storage c) ''authToken''\<rparr>"

definition useAuth_1 :: "'ctx option \<Rightarrow> string + 'ctx" where
  \<comment> \<open>the context is created with the default \<^verbatim>\<open>undefined\<close>\<close>
  "useAuth_1 provider =
     (case useContext None (map_option Some provider) of
        None \<Rightarrow> Inl ''useAuth must be used within an AuthProvider''
      | Some context \<Rightarrow> Inr context)"

definition ProtectedRoute :: "token_client \<Rightarrow> gate" where
  \<comment> \<open>\<^verbatim>\<open>if (!token) return <Navigate .../>; return children\<close>, and the same test in
      the second client and in the Navbar\<close>
  "ProtectedRoute c = (if \<not> truthy (token c) then Anonymous else Authenticated)"

definition Login_handleSubmit_1 ::
  "token_client \<Rightarrow> string \<Rightarrow> string \<Rightarrow> http_result \<Rightarrow> token_client" where
  "Login_handleSubmit_1 c email password res =
     (let c1 = emit (Fetch \<lparr>http_method = ''POST'', url = API_URL @ ''/users/login'',
                            headers = [(''Content-Type'', ''application/json'')],
                            body = [(''email'', S email), (''password'', S password)]\<rparr>) c
      in case fetch_json res of
           None \<Rightarrow> emit (SetError generic_error) c1
         | Some (status, data) \<Rightarrow>
             if ok status then emit (Navigate ''/dashboard'') (login_1 c1 (token_of data))
             else emit (SetError (message_of data)) c1)"

definition Dashboard_fetchItems_1 :: "token_client \<Rightarrow> http_result \<Rightarrow> token_client" where
  "Dashboard_fetchItems_1 c res =
     (let c1 = emit (Fetch \<lparr>http_method = ''GET'', url = API_URL @ ''/items'',
                            headers = [bearer (token c)], body = []\<rparr>) c
      in case fetch_json res of
           None \<Rightarrow> emit (SetError generic_error) c1
         | Some (status, data) \<Rightarrow>
             if ok status then emit (SetItems data) c1
             else emit (SetError (or_else (message_of data) (Str ''Failed to fetch items''))) c1)"

definition AddItem_handleSubmit_1 ::
  "token_client \<Rightarrow> string \<Rightarrow> string \<Rightarrow> int option \<Rightarrow> string \<Rightarrow> http_result \<Rightarrow> token_client" where
  \<comment> \<open>\<^verbatim>\<open>price\<close> is \<^verbatim>\<open>number | undefined\<close>; \<^verbatim>\<open>!price\<close> holds of \<^verbatim>\<open>undefined\<close> and of 0\<close>
  "AddItem_handleSubmit_1 c name description price img res =
     (case price of
        None \<Rightarrow> emit (SetError (Str ''Price is required'')) c
      | Some p \<Rightarrow>
          if p = 0 then emit (SetError (Str ''Price is required'')) c
          else
            (let c1 = emit (Fetch \<lparr>http_method = ''POST'', url = API_URL @ ''/items'',
                                  headers = [(''Content-Type'', ''application/json''),
                                             bearer (token c)],
                                  body = [(''name'', S name), (''description'', S description),
                                          (''price'', N p), (''image'', S img)]\<rparr>) c
            in case fetch_json res of
                 None \<Rightarrow> emit (SetError generic_error) c1
               | Some (status, data) \<Rightarrow>
                   if ok status then emit ResetForm (emit (OnAddItem data) c1)
                   else emit (SetError (message_of data)) c1))"

definition TransactionList_fetchTransactions_1 ::
  "token_client \<Rightarrow> http_result \<Rightarrow> token_client" where
  "TransactionList_fetchTransactions_1 c res =
     (let c1 = emit (Fetch \<lparr>http_method = ''GET'', url = API_URL @ ''/transactions'',
                            headers = [bearer (token c)], body = []\<rparr>) c
      in case fetch_json res of
           None \<Rightarrow> emit (SetError generic_error) c1
         | Some (status, data) \<Rightarrow>
             if ok status then emit (SetTransactions data) c1
             else emit (SetError (message_of data)) c1)"

section \<open>Second client of src/server/index.js: a token context with setToken\<close>

text \<open>
  The same state, under the storage key \<^verbatim>\<open>'token'\<close>. The context's \<^verbatim>\<open>setToken\<close> is
  \<^verbatim>\<open>setAndPersistToken\<close>, which removes the key on a falsy token.
\<close>

definition AuthProvider_2 :: "localStorage \<Rightarrow> token_client" where
  "AuthProvider_2 ls = \<lparr>storage = ls, trace = [], token = getItem ls ''token''\<rparr>"

definition setAndPersistToken :: "token_client \<Rightarrow> jsval \<Rightarrow> token_client" where
  "setAndPersistToken c t =
     (let c1 = c\<lparr>token := t\<rparr>
      in if truthy t then c1\<lparr>storage := setItem (storage c1) ''token'' t\<rparr>
         else c1\<lparr>storage := removeItem (storage c1) ''token''\<rparr>)"

definition logout_2 :: "token_client \<Rightarrow> token_client" where
  "logout_2 c = setAndPersistToken c Null"

definition useAuth_2 :: "'ctx option \<Rightarrow> string + 'ctx" where
  "useAuth_2 provider =
     (case useContext None (map_option Some provider) of
        None \<Rightarrow> Inl ''useAuth must be used within an AuthProvider''
      | Some context \<Rightarrow> Inr context)"

definition Login_handleSubmit_2 ::
  "token_client \<Rightarrow> string \<Rightarrow> string \<Rightarrow> http_result \<Rightarrow> token_client" where
  "Login_handleSubmit_2 c email password res =
     (let c1 = emit (Fetch \<lparr>http_method = ''POST'', url = API_URL @ ''/users/login'',
                            headers = [(''Content-Type'', ''application/json'')],
                            body = [(''email'', S email), (''password'', S password)]\<rparr>) c
      in case fetch_json res of
           None \<Rightarrow> emit (SetError generic_error) c1
         | Some (status, data) \<Rightarrow>
             if ok status then setAndPersistToken c1 (token_of data)
             else emit (SetError (or_else (message_of data) (Str ''Login failed''))) c1)"

definition Dashboard_fetchItems_2 :: "token_client \<Rightarrow> http_result \<Rightarrow> token_client" where
  "Dashboard_fetchItems_2 c res =
     (let c1 = emit (Fetch \<lparr>http_method = ''GET'', url = API_URL @ ''/items'',
                            headers = [bearer (token c)], body = []\<rparr>) c
      in case fetch_json res of
           None \<Rightarrow> emit (SetError generic_error) c1
         | Some (status, data) \<Rightarrow>
             if ok status then emit (SetItems data) c1
             else emit (SetError (or_else (message_of data) (Str ''Failed to fetch items''))) c1)"

definition ItemList_handleDelete_2 :: "token_client \<Rightarrow> string \<Rightarrow> http_result \<Rightarrow> token_client" where
  \<comment> \<open>reads the token from the storage, and never parses the body\<close>
  "ItemList_handleDelete_2 c ident res =
     (let c1 = emit (Fetch \<lparr>http_method = ''DELETE'', url = API_URL @ ''/items/'' @ ident,
                            headers = [bearer (getItem (storage c) ''token'')], body = []\<rparr>) c
      in case res of
           NetworkFailure \<Rightarrow> emit (Alert ''An error occurred. Please try again.'') c1
         | Http status data \<Rightarrow>
             if ok status then emit (Alert ''Item deleted successfully'') c1
             else emit (Alert ''Failed to delete item'') c1)"

definition AddItem_handleSubmit_2 ::
  "token_client \<Rightarrow> string \<Rightarrow> string \<Rightarrow> field \<Rightarrow> string \<Rightarrow> http_result \<Rightarrow> token_client" where
  \<comment> \<open>\<^verbatim>\<open>price\<close> is \<^verbatim>\<open>number | ''\<close>, sent as it is\<close>
  "AddItem_handleSubmit_2 c name description price img res =
     (let c1 = emit (Fetch \<lparr>http_method = ''POST'', url = API_URL @ ''/items'',
                            headers = [(''Content-Type'', ''application/json''),
                                       bearer (getItem (storage c) ''token'')],
                            body = [(''name'', S name), (''description'', S description),
                                    (''price'', price), (''image'', S img)]\<rparr>) c
      in case fetch_json res of
           None \<Rightarrow> emit (SetError generic_error) c1
         | Some (status, data) \<Rightarrow>
             if ok status then emit (SetError (Str [])) (emit ResetForm (emit (OnAddItem data) c1))
             else emit (SetError (or_else (message_of data) (Str ''Failed to add item''))) c1)"

definition TransactionList_fetchTransactions_2 ::
  "token_client \<Rightarrow> http_result \<Rightarrow> token_client" where
  "TransactionList_fetchTransactions_2 c res =
     (let c1 = emit (Fetch \<lparr>http_method = ''GET'', url = API_URL @ ''/transactions'',
                            headers = [bearer (token c)], body = []\<rparr>) c
      in case fetch_json res of
           None \<Rightarrow> emit (SetError generic_error) c1
         | Some (status, data) \<Rightarrow>
             if ok status then emit (SetTransactions data) c1
             else emit (SetError (or_else (message_of data)
                                    (Str ''Failed to fetch transactions''))) c1)"


section \<open>The client of src/unnamed/part_000: an isAuthenticated flag over services/api.ts\<close>

text \<open>
  \<^verbatim>\<open>axios\<close> rejects when the network fails and on a status outside 2xx; otherwise it
  resolves with the body as \<^verbatim>\<open>response.data\<close>. The calls of \<^verbatim>\<open>services/api.ts\<close> pass it a
  URL and a body and no configuration, so the request carries no header set by the
  code. An \<^verbatim>\<open>async\<close> function either resolves, here with the client it leaves and its
  value, or rejects.
\<close>

record flag_client = client +
  isAuthenticated :: bool

definition axios_get :: "flag_client \<Rightarrow> string \<Rightarrow> http_result \<Rightarrow> (flag_client, json) completion" where
  "axios_get c u res =
     (let c1 = emit (Fetch \<lparr>http_method = ''GET'', url = u, headers = [], body = []\<rparr>) c
      in case res of
           NetworkFailure \<Rightarrow> Rejected c1
         | Http status data \<Rightarrow> if ok status then Resolved c1 data else Rejected c1)"

definition axios_post ::
  "flag_client \<Rightarrow> string \<Rightarrow> (string \<times> field) list \<Rightarrow> http_result
     \<Rightarrow> (flag_client, json) completion" where
  "axios_post c u b res =
     (let c1 = emit (Fetch \<lparr>http_method = ''POST'', url = u, headers = [], body = b\<rparr>) c
      in case res of
           NetworkFailure \<Rightarrow> Rejected c1
         | Http status data \<Rightarrow> if ok status then Resolved c1 data else Rejected c1)"

definition fetchItems :: "flag_client \<Rightarrow> http_result \<Rightarrow> (flag_client, json) completion" where
  "fetchItems c res = axios_get c (API_URL @ ''/items'') res"

definition addItem ::
  "flag_client \<Rightarrow> (string \<times> field) list \<Rightarrow> http_result \<Rightarrow> (flag_client, unit) completion" where
  "addItem c item res =
     (case axios_post c (API_URL @ ''/items'') item res of
        Rejected c1 \<Rightarrow> Rejected c1
      | Resolved c1 data \<Rightarrow> Resolved c1 ())"

definition fetchTransactions :: "flag_client \<Rightarrow> http_result \<Rightarrow> (flag_client, json) completion" where
  "fetchTransactions c res = axios_get c (API_URL @ ''/transactions'') res"

definition apiLogin ::
  "flag_client \<Rightarrow> string \<Rightarrow> string \<Rightarrow> http_result \<Rightarrow> (flag_client, unit) completion" where
  "apiLogin c email password res =
     (case axios_post c (API_URL @ ''/auth/login'')
             [(''email'', S email), (''password'', S password)] res of
        Rejected c1 \<Rightarrow> Rejected c1
      | Resolved c1 data \<Rightarrow>
          Resolved (c1\<lparr>storage := setItem (storage c1) ''token'' (token_of data)\<rparr>) ())"

definition apiRegister ::
  "flag_client \<Rightarrow> string \<Rightarrow> string \<Rightarrow> string \<Rightarrow> http_result
     \<Rightarrow> (flag_client, unit) completion" where
  "apiRegister c username email password res =
     (case axios_post c (API_URL @ ''/auth/register'')
             [(''username'', S username), (''email'', S email), (''password'', S password)] res of
        Rejected c1 \<Rightarrow> Rejected c1
      | Resolved c1 data \<Rightarrow>
          Resolved (c1\<lparr>storage := setItem (storage c1) ''token'' (token_of data)\<rparr>) ())"

definition apiLogout :: "flag_client \<Rightarrow> flag_client" where
  "apiLogout c = c\<lparr>storage := removeItem (storage c) ''token''\<rparr>"

text \<open>
  \<^verbatim>\<open>AuthProvider\<close> starts from \<^verbatim>\<open>useState(false)\<close>; its mount effect then reads the
  storage and sets the flag to \<^verbatim>\<open>!!token\<close>.
\<close>

definition AuthProvider_3 :: "localStorage \<Rightarrow> flag_client" where
  "AuthProvider_3 ls = \<lparr>storage = ls, trace = [], isAuthenticated = False\<rparr>"

definition AuthProvider_effect_3 :: "flag_client \<Rightarrow> flag_client" where
  "AuthProvider_effect_3 c = c\<lparr>isAuthenticated := truthy (getItem (storage c) ''token'')\<rparr>"

definition AuthProvider_mount_3 :: "localStorage \<Rightarrow> flag_client" where
  "AuthProvider_mount_3 ls = AuthProvider_effect_3 (AuthProvider_3 ls)"

definition login_3 ::
  "flag_client \<Rightarrow> string \<Rightarrow> string \<Rightarrow> http_result \<Rightarrow> (flag_client, unit) completion" where
  "login_3 c email password res =
     (case apiLogin c email password res of
        Rejected c1 \<Rightarrow> Rejected c1
      | Resolved c1 u \<Rightarrow> Resolved (c1\<lparr>isAuthenticated := True\<rparr>) ())"

definition register_3 ::
  "flag_client \<Rightarrow> string \<Rightarrow> string \<Rightarrow> string \<Rightarrow> http_result
     \<Rightarrow> (flag_client, unit) completion" where
  "register_3 c username email password res =
     (case apiRegister c username email password res of
        Rejected c1 \<Rightarrow> Rejected c1
      | Resolved c1 u \<Rightarrow> Resolved (c1\<lparr>isAuthenticated := True\<rparr>) ())"

definition logout_3 :: "flag_client \<Rightarrow> flag_client" where
  "logout_3 c = (apiLogout c)\<lparr>isAuthenticated := False\<rparr>"

text \<open>
  The context value: the flag and the three functions. \<^verbatim>\<open>createContext\<close> is given a
  default whose flag is false and whose functions do nothing, and \<^verbatim>\<open>useAuth\<close> is
  \<^verbatim>\<open>useContext(AuthContext)\<close> with no check.
\<close>

record auth_context =
  ctx_isAuthenticated :: bool
  ctx_login :: "flag_client \<Rightarrow> string \<Rightarrow> string \<Rightarrow> http_result \<Rightarrow> (flag_client, unit) completion"
  ctx_register ::
    "flag_client \<Rightarrow> string \<Rightarrow> string \<Rightarrow> string \<Rightarrow> http_result \<Rightarrow> (flag_client, unit) completion"
  ctx_logout :: "flag_client \<Rightarrow> flag_client"

definition AuthContext_default :: auth_context where
  "AuthContext_default =
     \<lparr>ctx_isAuthenticated = False,
      ctx_login = (\<lambda>c email password res. Resolved c ()),
      ctx_register = (\<lambda>c username email password res. Resolved c ()),
      ctx_logout = (\<lambda>c. c)\<rparr>"

definition AuthProvider_value_3 :: "flag_client \<Rightarrow> auth_context" where
  "AuthProvider_value_3 c =
     \<lparr>ctx_isAuthenticated = isAuthenticated c, ctx_login = login_3,
      ctx_register = register_3, ctx_logout = logout_3\<rparr>"

definition useAuth_3 :: "auth_context option \<Rightarrow> string + auth_context" where
  "useAuth_3 provider = Inr (useContext AuthContext_default provider)"

definition ProtectedRoute_3 :: "flag_client \<Rightarrow> gate" where
  \<comment> \<open>\<^verbatim>\<open>isAuthenticated ? <Element/> : <Login/>\<close>, and the same test in the Navbar\<close>
  "ProtectedRoute_3 c = (if isAuthenticated c then Authenticated else Anonymous)"

definition Login_handleSubmit_3 ::
  "flag_client \<Rightarrow> string \<Rightarrow> string \<Rightarrow> http_result \<Rightarrow> flag_client" where
  "Login_handleSubmit_3 c email password res =
     (case login_3 c email password res of
        Resolved c1 u \<Rightarrow> emit (Navigate ''/dashboard'') c1
      | Rejected c1 \<Rightarrow> emit (SetError (Str ''Invalid email or password'')) c1)"

definition Register_handleSubmit_3 ::
  "flag_client \<Rightarrow> string \<Rightarrow> string \<Rightarrow> string \<Rightarrow> http_result \<Rightarrow> flag_client" where
  "Register_handleSubmit_3 c username email password res =
     (case register_3 c username email password res of
        Resolved c1 u \<Rightarrow> emit (Navigate ''/dashboard'') c1
      | Rejected c1 \<Rightarrow> emit (SetError (Str ''Registration failed'')) c1)"

definition ItemList_loadItems_3 ::
  "flag_client \<Rightarrow> http_result \<Rightarrow> (flag_client, unit) completion" where
  \<comment> \<open>no \<^verbatim>\<open>catch\<close>: a rejection of \<^verbatim>\<open>fetchItems\<close> rejects \<^verbatim>\<open>loadItems\<close>\<close>
  "ItemList_loadItems_3 c res =
     (case fetchItems c res of
        Rejected c1 \<Rightarrow> Rejected c1
      | Resolved c1 data \<Rightarrow> Resolved (emit (SetItems data) c1) ())"

definition AddItem_handleSubmit_3 ::
  "flag_client \<Rightarrow> string \<Rightarrow> string \<Rightarrow> field \<Rightarrow> string \<Rightarrow> http_result
     \<Rightarrow> (flag_client, unit) completion" where
  "AddItem_handleSubmit_3 c name description price img res =
     (case addItem c [(''name'', S name), (''description'', S description),
                      (''price'', price), (''image'', S img)] res of
        Rejected c1 \<Rightarrow> Rejected c1
      | Resolved c1 u \<Rightarrow> Resolved (emit Reload (emit ResetForm c1)) ())"

definition TransactionList_loadTransactions_3 ::
  "flag_client \<Rightarrow> http_result \<Rightarrow> (flag_client, unit) completion" where
  "TransactionList_loadTransactions_3 c res =
     (case fetchTransactions c res of
        Rejected c1 \<Rightarrow> Rejected c1
      | Resolved c1 data \<Rightarrow> Resolved (emit (SetTransactions data) c1) ())"

section \<open>The server of src/server/index.js: the route table\<close>






text \<open>
  Express matches a request against the layers in the order of registration, ignoring
  the case of the letters of the path. A \<^verbatim>\<open>use\<close> layer matches every method and every
  path under its mount point; a \<^verbatim>\<open>post\<close> layer matches the method \<^verbatim>\<open>POST\<close> and its own
  path (a trailing slash allowed).
\<close>

definition to_lower :: "char \<Rightarrow> char" where
  "to_lower ch =
     (case map_of (zip ''ABCDEFGHIJKLMNOPQRSTUVWXYZ'' ''abcdefghijklmnopqrstuvwxyz'') ch of
        None \<Rightarrow> ch
      | Some l \<Rightarrow> l)"

definition lower :: "string \<Rightarrow> string" where
  "lower s = map to_lower s"












section \<open>Credential Issuer and Access Guard\<close>

text \<open>
  \<^verbatim>\<open>index.js\<close> imports \<^verbatim>\<open>verifyToken\<close> from \<^verbatim>\<open>middleware/auth.js\<close> and the login and
  registration handlers from \<^verbatim>\<open>controllers/auth.js\<close> and \<^verbatim>\<open>routes/auth.js\<close>; none of
  these modules is among the sources. The definitions of this section follow the
  specification (sections 3, 4.1, 4.2, 6 and 7). The password hash and the signature
  are parameters: \<open>H salt password\<close> and \<open>sign secret payload\<close>.
\<close>

text \<open>Modelled from the spec: the failure taxonomy (section 7), the User record and the
  Token with its subject, issued-at and expiry timestamps and its signature (section 3);
  the modules that declare them are missing.
\<close>

datatype auth_error = InvalidCredential | DuplicateIdentifier | Unauthenticated

record user =
  user_id :: string
  login_name :: string
  hashedPassword :: string
  salt :: string

datatype token = Token (subject: string) (issued_at: nat) (expiry: nat) (signature: string)

definition payload :: "token \<Rightarrow> string \<times> nat \<times> nat" where
  "payload t = (subject t, issued_at t, expiry t)"

text \<open>Modelled from the spec: the User Store's lookup (section 6); the store itself is
  an external collaborator, here the list of its records.
\<close>

definition findByIdentifier :: "user list \<Rightarrow> string \<Rightarrow> user option" where
  "findByIdentifier store ident = find (\<lambda>u. login_name u = ident) store"

text \<open>Modelled from the spec: token construction in controllers/auth.js, which is missing
  (section 4.1: subject = the user's identifier, issued-at = current time, expiry =
  issued-at + a fixed session lifetime, then signed).
\<close>

definition issue ::
  "(string \<Rightarrow> string \<times> nat \<times> nat \<Rightarrow> string) \<Rightarrow> string \<Rightarrow> nat \<Rightarrow> nat \<Rightarrow> user \<Rightarrow> token" where
  "issue sign secret lifetime now u =
     Token (user_id u) now (now + lifetime) (sign secret (user_id u, now, now + lifetime))"

text \<open>Modelled from the spec: the login handler of controllers/auth.js, which is missing
  (section 4.1: look the record up or fail InvalidCredential; recompute the hash with
  the stored salt and compare; on mismatch fail InvalidCredential).
\<close>

definition issueToken ::
  "(string \<Rightarrow> string \<Rightarrow> string) \<Rightarrow> (string \<Rightarrow> string \<times> nat \<times> nat \<Rightarrow> string) \<Rightarrow> string
     \<Rightarrow> nat \<Rightarrow> nat \<Rightarrow> user list \<Rightarrow> string \<Rightarrow> string \<Rightarrow> auth_error + token" where
  "issueToken H sign secret lifetime now store ident password =
     (case findByIdentifier store ident of
        None \<Rightarrow> Inl InvalidCredential
      | Some u \<Rightarrow>
          if H (salt u) password = hashedPassword u
          then Inr (issue sign secret lifetime now u)
          else Inl InvalidCredential)"

text \<open>Modelled from the spec: the HTTP layer's status for a tagged failure (section 6 and
  the scenarios of section 8: 401 for a failed login and for a guard failure, 400 for
  a failed registration).
\<close>

definition status_of :: "auth_error \<Rightarrow> nat" where
  "status_of e = (case e of DuplicateIdentifier \<Rightarrow> 400 | _ \<Rightarrow> 401)"

text \<open>Modelled from the spec: the HTTP layer over the login handler, which is missing
  (section 7: a tagged failure is mapped to a 4xx status and a message; section 6:
  200 with the token otherwise). \<open>msg\<close> is the message text of each failure.
\<close>

definition login_response ::
  "(auth_error \<Rightarrow> string) \<Rightarrow> auth_error + token \<Rightarrow> nat \<times> (string + token)" where
  "login_response msg r =
     (case r of Inl e \<Rightarrow> (status_of e, Inl (msg e)) | Inr t \<Rightarrow> (200, Inr t))"

text \<open>Modelled from the spec: the value of the \<^verbatim>\<open>Authorization\<close> header (section 6), either
  \<^verbatim>\<open>Bearer <token>\<close> or anything else, which is malformed.
\<close>

datatype header_value = Bearer token | Other string

text \<open>Modelled from the spec: verifyToken of middleware/auth.js, which is missing
  (section 4.2: extract the token from the bearer header, fail if absent or
  malformed; verify the signature, fail on mismatch; fail if the current time is at
  or past the expiry; otherwise yield the subject).
\<close>

definition authorize ::
  "(string \<Rightarrow> string \<times> nat \<times> nat \<Rightarrow> string) \<Rightarrow> string \<Rightarrow> nat \<Rightarrow> header_value option
     \<Rightarrow> auth_error + string" where
  "authorize sign secret now raw =
     (case raw of
        None \<Rightarrow> Inl Unauthenticated
      | Some (Other v) \<Rightarrow> Inl Unauthenticated
      | Some (Bearer t) \<Rightarrow>
          if signature t \<noteq> sign secret (payload t) then Inl Unauthenticated
          else if expiry t \<le> now then Inl Unauthenticated
          else Inr (subject t))"


section \<open>Basic facts about the model\<close>

lemmas store_defs = getItem_def setItem_def removeItem_def

lemma truthy_iff: "truthy v \<longleftrightarrow> (\<exists>t. t \<noteq> [] \<and> v = Str t)"
  by (cases v) simp_all

lemma emit_session [simp]:
  "storage (emit e c) = storage c"
  "trace (emit e c) = trace c @ [e]"
  by (simp_all add: emit_def)

lemma emit_token [simp]: "token (emit e c) = token c"
  by (simp add: emit_def)

lemma emit_flag [simp]: "isAuthenticated (emit e c) = isAuthenticated c"
  by (simp add: emit_def)

lemma requests_emit [simp]:
  "requests (emit (Fetch r) c) = requests c @ [r]"
  "requests (emit (SetError e) c) = requests c"
  "requests (emit (SetItems j) c) = requests c"
  "requests (emit (SetTransactions j) c) = requests c"
  "requests (emit (OnAddItem j) c) = requests c"
  "requests (emit ResetForm c) = requests c"
  "requests (emit (Navigate p) c) = requests c"
  "requests (emit (Alert a) c) = requests c"
  "requests (emit Reload c) = requests c"
  by (simp_all add: requests_def emit_def)

subsection \<open>The protected calls leave the session alone\<close>

lemma Dashboard_fetchItems_1_session:
  "storage (Dashboard_fetchItems_1 c res) = storage c
   \<and> token (Dashboard_fetchItems_1 c res) = token c"
  by (simp add: Dashboard_fetchItems_1_def Let_def split: option.splits prod.splits)

lemma Dashboard_fetchItems_2_session:
  "storage (Dashboard_fetchItems_2 c res) = storage c
   \<and> token (Dashboard_fetchItems_2 c res) = token c"
  by (simp add: Dashboard_fetchItems_2_def Let_def split: option.splits prod.splits)

lemma TransactionList_fetchTransactions_1_session:
  "storage (TransactionList_fetchTransactions_1 c res) = storage c
   \<and> token (TransactionList_fetchTransactions_1 c res) = token c"
  by (simp add: TransactionList_fetchTransactions_1_def Let_def split: option.splits prod.splits)

lemma TransactionList_fetchTransactions_2_session:
  "storage (TransactionList_fetchTransactions_2 c res) = storage c
   \<and> token (TransactionList_fetchTransactions_2 c res) = token c"
  by (simp add: TransactionList_fetchTransactions_2_def Let_def split: option.splits prod.splits)

lemma AddItem_handleSubmit_1_session:
  "storage (AddItem_handleSubmit_1 c n d p i res) = storage c
   \<and> token (AddItem_handleSubmit_1 c n d p i res) = token c"
  by (simp add: AddItem_handleSubmit_1_def Let_def split: option.splits prod.splits)

lemma AddItem_handleSubmit_2_session:
  "storage (AddItem_handleSubmit_2 c n d p i res) = storage c
   \<and> token (AddItem_handleSubmit_2 c n d p i res) = token c"
  by (simp add: AddItem_handleSubmit_2_def Let_def split: option.splits prod.splits)

lemma ItemList_handleDelete_2_session:
  "storage (ItemList_handleDelete_2 c i res) = storage c
   \<and> token (ItemList_handleDelete_2 c i res) = token c"
  by (simp add: ItemList_handleDelete_2_def Let_def split: http_result.splits)

lemma axios_get_session:
  "storage (client_of (axios_get c u res)) = storage c
   \<and> isAuthenticated (client_of (axios_get c u res)) = isAuthenticated c"
  by (simp add: axios_get_def Let_def split: http_result.splits)

lemma ItemList_loadItems_3_session:
  "storage (client_of (ItemList_loadItems_3 c res)) = storage c
   \<and> isAuthenticated (client_of (ItemList_loadItems_3 c res)) = isAuthenticated c"
  using axios_get_session [of c "API_URL @ ''/items''" res]
  by (cases "axios_get c (API_URL @ ''/items'') res")
     (simp_all add: ItemList_loadItems_3_def fetchItems_def)

subsection \<open>The requests of the protected calls\<close>

lemma axios_get_requests:
  "requests (client_of (axios_get c u res)) =
     requests c @ [\<lparr>http_method = ''GET'', url = u, headers = [], body = []\<rparr>]"
  by (simp add: axios_get_def Let_def split: http_result.splits)

lemma axios_post_requests:
  "requests (client_of (axios_post c u b res)) =
     requests c @ [\<lparr>http_method = ''POST'', url = u, headers = [], body = b\<rparr>]"
  by (simp add: axios_post_def Let_def split: http_result.splits)

text \<open>
  The two clients of \<^verbatim>\<open>index.js\<close> attach the token to every protected request: the one
  in the provider's state, or the one read from the storage.
\<close>

lemma token_clients_send_bearer:
  "requests (Dashboard_fetchItems_1 c res) =
     requests c @ [\<lparr>http_method = ''GET'', url = API_URL @ ''/items'',
                    headers = [bearer (token c)], body = []\<rparr>]"
  "requests (TransactionList_fetchTransactions_1 c res) =
     requests c @ [\<lparr>http_method = ''GET'', url = API_URL @ ''/transactions'',
                    headers = [bearer (token c)], body = []\<rparr>]"
  "requests (Dashboard_fetchItems_2 c res) =
     requests c @ [\<lparr>http_method = ''GET'', url = API_URL @ ''/items'',
                    headers = [bearer (token c)], body = []\<rparr>]"
  "requests (TransactionList_fetchTransactions_2 c res) =
     requests c @ [\<lparr>http_method = ''GET'', url = API_URL @ ''/transactions'',
                    headers = [bearer (token c)], body = []\<rparr>]"
  "requests (ItemList_handleDelete_2 c ident res) =
     requests c @ [\<lparr>http_method = ''DELETE'', url = API_URL @ ''/items/'' @ ident,
                    headers = [bearer (getItem (storage c) ''token'')], body = []\<rparr>]"
  "requests (AddItem_handleSubmit_2 c name description price img res) =
     requests c @ [\<lparr>http_method = ''POST'', url = API_URL @ ''/items'',
                    headers = [(''Content-Type'', ''application/json''),
                               bearer (getItem (storage c) ''token'')],
                    body = [(''name'', S name), (''description'', S description),
                            (''price'', price), (''image'', S img)]\<rparr>]"
  by (simp_all add: Dashboard_fetchItems_1_def TransactionList_fetchTransactions_1_def
      Dashboard_fetchItems_2_def TransactionList_fetchTransactions_2_def
      ItemList_handleDelete_2_def AddItem_handleSubmit_2_def Let_def
      split: option.splits prod.splits http_result.splits)

lemma AddItem_handleSubmit_1_requests:
  "p \<noteq> 0 \<Longrightarrow>
   requests (AddItem_handleSubmit_1 c name description (Some p) img res) =
     requests c @ [\<lparr>http_method = ''POST'', url = API_URL @ ''/items'',
                    headers = [(''Content-Type'', ''application/json''), bearer (token c)],
                    body = [(''name'', S name), (''description'', S description),
                            (''price'', N p), (''image'', S img)]\<rparr>]"
  by (simp add: AddItem_handleSubmit_1_def Let_def split: option.splits prod.splits)

text \<open>
  The provider's state agrees with the storage from the start, and \<^verbatim>\<open>login\<close>,
  \<^verbatim>\<open>setToken\<close> on a non-empty token and \<^verbatim>\<open>logout\<close> keep them equal.
\<close>

lemma token_agrees_with_storage:
  "token (AuthProvider_1 ls) = getItem (storage (AuthProvider_1 ls)) ''authToken''"
  "token (AuthProvider_2 ls) = getItem (storage (AuthProvider_2 ls)) ''token''"
  "token (login_1 c (Str t)) = getItem (storage (login_1 c (Str t))) ''authToken''"
  "token (logout_1 c) = getItem (storage (logout_1 c)) ''authToken''"
  "t \<noteq> [] \<Longrightarrow>
     token (setAndPersistToken c (Str t)) = getItem (storage (setAndPersistToken c (Str t))) ''token''"
  "token (logout_2 c) = getItem (storage (logout_2 c)) ''token''"
  by (simp_all add: AuthProvider_1_def AuthProvider_2_def login_1_def logout_1_def logout_2_def
      setAndPersistToken_def Let_def store_defs)


section \<open>A protected call that is refused\<close>

lemma TransactionList_loadTransactions_3_session:
  "storage (client_of (TransactionList_loadTransactions_3 c res)) = storage c
   \<and> isAuthenticated (client_of (TransactionList_loadTransactions_3 c res)) = isAuthenticated c"
  using axios_get_session [of c "API_URL @ ''/transactions''" res]
  by (cases "axios_get c (API_URL @ ''/transactions'') res")
     (simp_all add: TransactionList_loadTransactions_3_def fetchTransactions_def)

lemma refused_calls_1:
  assumes "\<not> ok status"
  shows "Dashboard_fetchItems_1 c (Http status data) =
       emit (SetError (if data = NotJson then generic_error
                       else or_else (message_of data) (Str ''Failed to fetch items'')))
         (emit (Fetch \<lparr>http_method = ''GET'', url = API_URL @ ''/items'',
                        headers = [bearer (token c)], body = []\<rparr>) c)"
    and "TransactionList_fetchTransactions_1 c (Http status data) =
       emit (SetError (if data = NotJson then generic_error else message_of data))
         (emit (Fetch \<lparr>http_method = ''GET'', url = API_URL @ ''/transactions'',
                        headers = [bearer (token c)], body = []\<rparr>) c)"
    and "p \<noteq> 0 \<longrightarrow> AddItem_handleSubmit_1 c name description (Some p) img (Http status data) =
       emit (SetError (if data = NotJson then generic_error else message_of data))
         (emit (Fetch \<lparr>http_method = ''POST'', url = API_URL @ ''/items'',
                        headers = [(''Content-Type'', ''application/json''), bearer (token c)],
                        body = [(''name'', S name), (''description'', S description),
                                (''price'', N p), (''image'', S img)]\<rparr>) c)"
  using assms
  by (cases data; simp add: Dashboard_fetchItems_1_def TransactionList_fetchTransactions_1_def
      AddItem_handleSubmit_1_def fetch_json_def Let_def)+

lemma refused_calls_2:
  assumes "\<not> ok status"
  shows "Dashboard_fetchItems_2 c (Http status data) =
       emit (SetError (if data = NotJson then generic_error
                       else or_else (message_of data) (Str ''Failed to fetch items'')))
         (emit (Fetch \<lparr>http_method = ''GET'', url = API_URL @ ''/items'',
                        headers = [bearer (token c)], body = []\<rparr>) c)"
    and "TransactionList_fetchTransactions_2 c (Http status data) =
       emit (SetError (if data = NotJson then generic_error
                       else or_else (message_of data) (Str ''Failed to fetch transactions'')))
         (emit (Fetch \<lparr>http_method = ''GET'', url = API_URL @ ''/transactions'',
                        headers = [bearer (token c)], body = []\<rparr>) c)"
    and "AddItem_handleSubmit_2 c name description price' img (Http status data) =
       emit (SetError (if data = NotJson then generic_error
                       else or_else (message_of data) (Str ''Failed to add item'')))
         (emit (Fetch \<lparr>http_method = ''POST'', url = API_URL @ ''/items'',
                        headers = [(''Content-Type'', ''application/json''),
                                   bearer (getItem (storage c) ''token'')],
                        body = [(''name'', S name), (''description'', S description),
                                (''price'', price'), (''image'', S img)]\<rparr>) c)"
    and "ItemList_handleDelete_2 c ident (Http status data) =
       emit (Alert ''Failed to delete item'')
         (emit (Fetch \<lparr>http_method = ''DELETE'', url = API_URL @ ''/items/'' @ ident,
                        headers = [bearer (getItem (storage c) ''token'')], body = []\<rparr>) c)"
  using assms
  by (cases data; simp add: Dashboard_fetchItems_2_def TransactionList_fetchTransactions_2_def
      AddItem_handleSubmit_2_def ItemList_handleDelete_2_def fetch_json_def Let_def)+

lemma refused_calls_3:
  assumes "\<not> ok status"
  shows "ItemList_loadItems_3 d (Http status data) =
         Rejected (emit (Fetch \<lparr>http_method = ''GET'', url = API_URL @ ''/items'',
                                 headers = [], body = []\<rparr>) d)"
    and "TransactionList_loadTransactions_3 d (Http status data) =
         Rejected (emit (Fetch \<lparr>http_method = ''GET'', url = API_URL @ ''/transactions'',
                                 headers = [], body = []\<rparr>) d)"
    and "AddItem_handleSubmit_3 d name description price' img (Http status data) =
         Rejected (emit (Fetch \<lparr>http_method = ''POST'', url = API_URL @ ''/items'',
                                 headers = [],
                                 body = [(''name'', S name), (''description'', S description),
                                         (''price'', price'), (''image'', S img)]\<rparr>) d)"
  using assms
  by (simp_all add: ItemList_loadItems_3_def TransactionList_loadTransactions_3_def
      AddItem_handleSubmit_3_def fetchItems_def fetchTransactions_def addItem_def
      axios_get_def axios_post_def Let_def)

text \<open>
  Claim C1, as the code has it. When a protected call is answered with a status that
  is not ok (401 among them), the client reports an error and does nothing else. In
  the two clients of \<^verbatim>\<open>index.js\<close>, \<^verbatim>\<open>Dashboard.fetchItems\<close>, \<^verbatim>\<open>fetchTransactions\<close> and
  \<^verbatim>\<open>AddItem.handleSubmit\<close> leave the client as it was but for their request and one
  \<^verbatim>\<open>setError\<close> in the trace, and \<^verbatim>\<open>ItemList.handleDelete\<close> but for its request and one
  \<^verbatim>\<open>alert\<close>; in the client over \<^verbatim>\<open>services/api.ts\<close> the loading of the items, the
  loading of the transactions and \<^verbatim>\<open>AddItem.handleSubmit\<close> reject, leaving the client
  as it was but for the request. So the store keeps its token, the provider its token
  or flag, and the gate its state.
\<close>

theorem unauthenticated_response_keeps_session:
  assumes "\<not> ok status"
  shows
    "trace (Dashboard_fetchItems_1 c (Http status data)) =
       trace c @ [Fetch \<lparr>http_method = ''GET'', url = API_URL @ ''/items'',
                         headers = [bearer (token c)], body = []\<rparr>,
                  SetError (if data = NotJson then generic_error
                            else or_else (message_of data) (Str ''Failed to fetch items''))]
     \<and> trace (Dashboard_fetchItems_2 c (Http status data)) =
       trace c @ [Fetch \<lparr>http_method = ''GET'', url = API_URL @ ''/items'',
                         headers = [bearer (token c)], body = []\<rparr>,
                  SetError (if data = NotJson then generic_error
                            else or_else (message_of data) (Str ''Failed to fetch items''))]
     \<and> storage (Dashboard_fetchItems_1 c (Http status data)) = storage c
     \<and> token (Dashboard_fetchItems_1 c (Http status data)) = token c
     \<and> ProtectedRoute (Dashboard_fetchItems_1 c (Http status data)) = ProtectedRoute c
     \<and> storage (Dashboard_fetchItems_2 c (Http status data)) = storage c
     \<and> token (Dashboard_fetchItems_2 c (Http status data)) = token c
     \<and> ProtectedRoute (Dashboard_fetchItems_2 c (Http status data)) = ProtectedRoute c
     \<and> storage (TransactionList_fetchTransactions_1 c (Http status data)) = storage c
     \<and> token (TransactionList_fetchTransactions_1 c (Http status data)) = token c
     \<and> storage (TransactionList_fetchTransactions_2 c (Http status data)) = storage c
     \<and> token (TransactionList_fetchTransactions_2 c (Http status data)) = token c
     \<and> storage (AddItem_handleSubmit_1 c name description price img (Http status data)) = storage c
     \<and> token (AddItem_handleSubmit_1 c name description price img (Http status data)) = token c
     \<and> storage (AddItem_handleSubmit_2 c name description price' img (Http status data)) = storage c
     \<and> token (AddItem_handleSubmit_2 c name description price' img (Http status data)) = token c
     \<and> storage (ItemList_handleDelete_2 c ident (Http status data)) = storage c
     \<and> token (ItemList_handleDelete_2 c ident (Http status data)) = token c
     \<and> ItemList_loadItems_3 d (Http status data) =
         Rejected (emit (Fetch \<lparr>http_method = ''GET'', url = API_URL @ ''/items'',
                                 headers = [], body = []\<rparr>) d)
     \<and> storage (client_of (ItemList_loadItems_3 d (Http status data))) = storage d
     \<and> isAuthenticated (client_of (ItemList_loadItems_3 d (Http status data))) = isAuthenticated d
     \<and> Dashboard_fetchItems_1 c (Http status data) =
         emit (SetError (if data = NotJson then generic_error
                         else or_else (message_of data) (Str ''Failed to fetch items'')))
           (emit (Fetch \<lparr>http_method = ''GET'', url = API_URL @ ''/items'',
                          headers = [bearer (token c)], body = []\<rparr>) c)
     \<and> TransactionList_fetchTransactions_1 c (Http status data) =
         emit (SetError (if data = NotJson then generic_error else message_of data))
           (emit (Fetch \<lparr>http_method = ''GET'', url = API_URL @ ''/transactions'',
                          headers = [bearer (token c)], body = []\<rparr>) c)
     \<and> (p \<noteq> 0 \<longrightarrow>
         AddItem_handleSubmit_1 c name description (Some p) img (Http status data) =
           emit (SetError (if data = NotJson then generic_error else message_of data))
             (emit (Fetch \<lparr>http_method = ''POST'', url = API_URL @ ''/items'',
                            headers = [(''Content-Type'', ''application/json''),
                                       bearer (token c)],
                            body = [(''name'', S name), (''description'', S description),
                                    (''price'', N p), (''image'', S img)]\<rparr>) c))
     \<and> Dashboard_fetchItems_2 c (Http status data) =
         emit (SetError (if data = NotJson then generic_error
                         else or_else (message_of data) (Str ''Failed to fetch items'')))
           (emit (Fetch \<lparr>http_method = ''GET'', url = API_URL @ ''/items'',
                          headers = [bearer (token c)], body = []\<rparr>) c)
     \<and> TransactionList_fetchTransactions_2 c (Http status data) =
         emit (SetError (if data = NotJson then generic_error
                         else or_else (message_of data) (Str ''Failed to fetch transactions'')))
           (emit (Fetch \<lparr>http_method = ''GET'', url = API_URL @ ''/transactions'',
                          headers = [bearer (token c)], body = []\<rparr>) c)
     \<and> AddItem_handleSubmit_2 c name description price' img (Http status data) =
         emit (SetError (if data = NotJson then generic_error
                         else or_else (message_of data) (Str ''Failed to add item'')))
           (emit (Fetch \<lparr>http_method = ''POST'', url = API_URL @ ''/items'',
                          headers = [(''Content-Type'', ''application/json''),
                                     bearer (getItem (storage c) ''token'')],
                          body = [(''name'', S name), (''description'', S description),
                                  (''price'', price'), (''image'', S img)]\<rparr>) c)
     \<and> ItemList_handleDelete_2 c ident (Http status data) =
         emit (Alert ''Failed to delete item'')
           (emit (Fetch \<lparr>http_method = ''DELETE'', url = API_URL @ ''/items/'' @ ident,
                          headers = [bearer (getItem (storage c) ''token'')], body = []\<rparr>) c)
     \<and> TransactionList_loadTransactions_3 d (Http status data) =
         Rejected (emit (Fetch \<lparr>http_method = ''GET'', url = API_URL @ ''/transactions'',
                                 headers = [], body = []\<rparr>) d)
     \<and> AddItem_handleSubmit_3 d name description price' img (Http status data) =
         Rejected (emit (Fetch \<lparr>http_method = ''POST'', url = API_URL @ ''/items'',
                                 headers = [],
                                 body = [(''name'', S name), (''description'', S description),
                                         (''price'', price'), (''image'', S img)]\<rparr>) d)
     \<and> ProtectedRoute (TransactionList_fetchTransactions_1 c (Http status data)) = ProtectedRoute c
     \<and> ProtectedRoute (TransactionList_fetchTransactions_2 c (Http status data)) = ProtectedRoute c
     \<and> ProtectedRoute (AddItem_handleSubmit_1 c name description price img (Http status data))
         = ProtectedRoute c
     \<and> ProtectedRoute (AddItem_handleSubmit_2 c name description price' img (Http status data))
         = ProtectedRoute c
     \<and> ProtectedRoute (ItemList_handleDelete_2 c ident (Http status data)) = ProtectedRoute c
     \<and> storage (client_of (TransactionList_loadTransactions_3 d (Http status data))) = storage d
     \<and> isAuthenticated (client_of (TransactionList_loadTransactions_3 d (Http status data)))
         = isAuthenticated d
     \<and> storage (client_of (AddItem_handleSubmit_3 d name description price' img
           (Http status data))) = storage d
     \<and> isAuthenticated (client_of (AddItem_handleSubmit_3 d name description price' img
           (Http status data))) = isAuthenticated d
     \<and> ProtectedRoute_3 (client_of (ItemList_loadItems_3 d (Http status data)))
         = ProtectedRoute_3 d
     \<and> ProtectedRoute_3 (client_of (TransactionList_loadTransactions_3 d (Http status data)))
         = ProtectedRoute_3 d
     \<and> ProtectedRoute_3 (client_of (AddItem_handleSubmit_3 d name description price' img
           (Http status data))) = ProtectedRoute_3 d"
proof -
  note r1 = refused_calls_1 [OF assms, where c = c and data = data]
  note r2 = refused_calls_2 [OF assms, where c = c and data = data]
  note r3 = refused_calls_3 [OF assms, where d = d and data = data]
  have traces:
    "trace (Dashboard_fetchItems_1 c (Http status data)) =
       trace c @ [Fetch \<lparr>http_method = ''GET'', url = API_URL @ ''/items'',
                         headers = [bearer (token c)], body = []\<rparr>,
                  SetError (if data = NotJson then generic_error
                            else or_else (message_of data) (Str ''Failed to fetch items''))]"
    "trace (Dashboard_fetchItems_2 c (Http status data)) =
       trace c @ [Fetch \<lparr>http_method = ''GET'', url = API_URL @ ''/items'',
                         headers = [bearer (token c)], body = []\<rparr>,
                  SetError (if data = NotJson then generic_error
                            else or_else (message_of data) (Str ''Failed to fetch items''))]"
    by (simp_all add: r1(1) r2(1))
  have session:
    "storage (Dashboard_fetchItems_1 c (Http status data)) = storage c"
    "token (Dashboard_fetchItems_1 c (Http status data)) = token c"
    "storage (Dashboard_fetchItems_2 c (Http status data)) = storage c"
    "token (Dashboard_fetchItems_2 c (Http status data)) = token c"
    "storage (TransactionList_fetchTransactions_1 c (Http status data)) = storage c"
    "token (TransactionList_fetchTransactions_1 c (Http status data)) = token c"
    "storage (TransactionList_fetchTransactions_2 c (Http status data)) = storage c"
    "token (TransactionList_fetchTransactions_2 c (Http status data)) = token c"
    "storage (AddItem_handleSubmit_1 c name description price img (Http status data)) = storage c"
    "token (AddItem_handleSubmit_1 c name description price img (Http status data)) = token c"
    "storage (AddItem_handleSubmit_2 c name description price' img (Http status data)) = storage c"
    "token (AddItem_handleSubmit_2 c name description price' img (Http status data)) = token c"
    "storage (ItemList_handleDelete_2 c ident (Http status data)) = storage c"
    "token (ItemList_handleDelete_2 c ident (Http status data)) = token c"
    using Dashboard_fetchItems_1_session [of c "Http status data"]
      Dashboard_fetchItems_2_session [of c "Http status data"]
      TransactionList_fetchTransactions_1_session [of c "Http status data"]
      TransactionList_fetchTransactions_2_session [of c "Http status data"]
      AddItem_handleSubmit_1_session [of c name description price img "Http status data"]
      AddItem_handleSubmit_2_session [of c name description price' img "Http status data"]
      ItemList_handleDelete_2_session [of c ident "Http status data"]
    by simp_all
  have flag:
    "storage (client_of (ItemList_loadItems_3 d (Http status data))) = storage d"
    "isAuthenticated (client_of (ItemList_loadItems_3 d (Http status data))) = isAuthenticated d"
    "storage (client_of (TransactionList_loadTransactions_3 d (Http status data))) = storage d"
    "isAuthenticated (client_of (TransactionList_loadTransactions_3 d (Http status data)))
       = isAuthenticated d"
    "storage (client_of (AddItem_handleSubmit_3 d name description price' img
         (Http status data))) = storage d"
    "isAuthenticated (client_of (AddItem_handleSubmit_3 d name description price' img
         (Http status data))) = isAuthenticated d"
    by (simp_all add: r3)
  have gates:
    "ProtectedRoute (Dashboard_fetchItems_1 c (Http status data)) = ProtectedRoute c"
    "ProtectedRoute (Dashboard_fetchItems_2 c (Http status data)) = ProtectedRoute c"
    "ProtectedRoute (TransactionList_fetchTransactions_1 c (Http status data)) = ProtectedRoute c"
    "ProtectedRoute (TransactionList_fetchTransactions_2 c (Http status data)) = ProtectedRoute c"
    "ProtectedRoute (AddItem_handleSubmit_1 c name description price img (Http status data))
       = ProtectedRoute c"
    "ProtectedRoute (AddItem_handleSubmit_2 c name description price' img (Http status data))
       = ProtectedRoute c"
    "ProtectedRoute (ItemList_handleDelete_2 c ident (Http status data)) = ProtectedRoute c"
    "ProtectedRoute_3 (client_of (ItemList_loadItems_3 d (Http status data)))
       = ProtectedRoute_3 d"
    "ProtectedRoute_3 (client_of (TransactionList_loadTransactions_3 d (Http status data)))
       = ProtectedRoute_3 d"
    "ProtectedRoute_3 (client_of (AddItem_handleSubmit_3 d name description price' img
         (Http status data))) = ProtectedRoute_3 d"
    by (simp_all add: ProtectedRoute_def ProtectedRoute_3_def session flag)
  from traces session flag gates r1 r2 r3 show ?thesis
    by blast
qed

text \<open>
  The theorem at a provider started over a stored token \<open>abc\<close>, with the answer 401
  and the message \<open>Unauthorized\<close>.
\<close>

theorem unauthenticated_response_keeps_session_witness:
  "\<not> ok 401
   \<and> ProtectedRoute (AuthProvider_1 [''authToken'' \<mapsto> ''abc'']) = Authenticated
   \<and> ProtectedRoute (Dashboard_fetchItems_1 (AuthProvider_1 [''authToken'' \<mapsto> ''abc''])
        (Http 401 (Obj Undefined (Str ''Unauthorized'')))) = Authenticated
   \<and> storage (Dashboard_fetchItems_1 (AuthProvider_1 [''authToken'' \<mapsto> ''abc''])
        (Http 401 (Obj Undefined (Str ''Unauthorized'')))) = [''authToken'' \<mapsto> ''abc'']
   \<and> trace (Dashboard_fetchItems_1 (AuthProvider_1 [''authToken'' \<mapsto> ''abc''])
        (Http 401 (Obj Undefined (Str ''Unauthorized'')))) =
       [Fetch \<lparr>http_method = ''GET'', url = ''http://localhost:5000/api/items'',
               headers = [(''Authorization'', ''Bearer abc'')], body = []\<rparr>,
        SetError (Str ''Unauthorized'')]"
proof -
  have h: "\<not> ok 401" by (simp add: ok_def)
  have g: "ProtectedRoute (AuthProvider_1 [''authToken'' \<mapsto> ''abc'']) = Authenticated"
    by (simp add: ProtectedRoute_def AuthProvider_1_def getItem_def)
  have "trace (Dashboard_fetchItems_1 (AuthProvider_1 [''authToken'' \<mapsto> ''abc''])
          (Http 401 (Obj Undefined (Str ''Unauthorized'')))) =
        trace (AuthProvider_1 [''authToken'' \<mapsto> ''abc''])
          @ [Fetch \<lparr>http_method = ''GET'', url = API_URL @ ''/items'',
                    headers = [bearer (token (AuthProvider_1 [''authToken'' \<mapsto> ''abc'']))],
                    body = []\<rparr>,
             SetError (if Obj Undefined (Str ''Unauthorized'') = NotJson then generic_error
                       else or_else (message_of (Obj Undefined (Str ''Unauthorized'')))
                              (Str ''Failed to fetch items''))]
      \<and> storage (Dashboard_fetchItems_1 (AuthProvider_1 [''authToken'' \<mapsto> ''abc''])
          (Http 401 (Obj Undefined (Str ''Unauthorized''))))
          = storage (AuthProvider_1 [''authToken'' \<mapsto> ''abc''])
      \<and> ProtectedRoute (Dashboard_fetchItems_1 (AuthProvider_1 [''authToken'' \<mapsto> ''abc''])
          (Http 401 (Obj Undefined (Str ''Unauthorized''))))
          = ProtectedRoute (AuthProvider_1 [''authToken'' \<mapsto> ''abc''])"
    using unauthenticated_response_keeps_session [OF h,
        of "AuthProvider_1 [''authToken'' \<mapsto> ''abc'']" "Obj Undefined (Str ''Unauthorized'')"]
    by blast
  with h g show ?thesis
    by (simp add: AuthProvider_1_def getItem_def bearer_def API_URL_def or_else_def)
qed

text \<open>
  Claim C1 as it is written asks for a cleared store and an Anonymous gate after the
  401. At the same input the gate is still Authenticated and the store still holds
  \<open>abc\<close>.
\<close>

theorem unauthenticated_response_counterexample:
  "ProtectedRoute (AuthProvider_1 [''authToken'' \<mapsto> ''abc'']) = Authenticated
   \<and> ProtectedRoute (Dashboard_fetchItems_1 (AuthProvider_1 [''authToken'' \<mapsto> ''abc''])
        (Http 401 (Obj Undefined (Str ''Unauthorized'')))) = Authenticated
   \<and> getItem (storage (Dashboard_fetchItems_1 (AuthProvider_1 [''authToken'' \<mapsto> ''abc''])
        (Http 401 (Obj Undefined (Str ''Unauthorized''))))) ''authToken'' = Str ''abc''"
  by (simp add: Dashboard_fetchItems_1_session ProtectedRoute_def AuthProvider_1_def getItem_def)

section \<open>The token on protected requests\<close>

text \<open>
  Claim C2 at the client over \<^verbatim>\<open>services/api.ts\<close>. The provider is mounted over a
  stored token \<open>abc\<close>, so the gate is Authenticated and the store holds the token; the
  requests that \<^verbatim>\<open>fetchItems\<close>, \<^verbatim>\<open>addItem\<close> and \<^verbatim>\<open>fetchTransactions\<close> send carry no
  header at all, whatever the answer. (The two clients of \<^verbatim>\<open>index.js\<close> do send it:
  \<open>token_clients_send_bearer\<close>.)
\<close>

theorem api_requests_carry_no_token:
  "ProtectedRoute_3 (AuthProvider_mount_3 [''token'' \<mapsto> ''abc'']) = Authenticated
   \<and> getItem (storage (AuthProvider_mount_3 [''token'' \<mapsto> ''abc''])) ''token'' = Str ''abc''
   \<and> requests (client_of (fetchItems (AuthProvider_mount_3 [''token'' \<mapsto> ''abc'']) res)) =
       [\<lparr>http_method = ''GET'', url = ''http://localhost:5000/api/items'', headers = [], body = []\<rparr>]
   \<and> requests (client_of (addItem (AuthProvider_mount_3 [''token'' \<mapsto> ''abc'']) item res)) =
       [\<lparr>http_method = ''POST'', url = ''http://localhost:5000/api/items'', headers = [], body = item\<rparr>]
   \<and> requests (client_of (fetchTransactions (AuthProvider_mount_3 [''token'' \<mapsto> ''abc'']) res)) =
       [\<lparr>http_method = ''GET'', url = ''http://localhost:5000/api/transactions'', headers = [],
         body = []\<rparr>]"
proof -
  let ?c = "AuthProvider_mount_3 [''token'' \<mapsto> ''abc'']"
  have r: "requests ?c = []"
    by (simp add: AuthProvider_mount_3_def AuthProvider_effect_3_def AuthProvider_3_def requests_def)
  have a: "requests (client_of (addItem ?c item res)) =
      requests ?c @ [\<lparr>http_method = ''POST'', url = API_URL @ ''/items'', headers = [], body = item\<rparr>]"
    using axios_post_requests [of ?c "API_URL @ ''/items''" item res]
    by (cases "axios_post ?c (API_URL @ ''/items'') item res") (simp_all add: addItem_def)
  show ?thesis
    using r a axios_get_requests [of ?c "API_URL @ ''/items''" res]
      axios_get_requests [of ?c "API_URL @ ''/transactions''" res]
    by (simp add: fetchItems_def fetchTransactions_def API_URL_def ProtectedRoute_3_def
        AuthProvider_mount_3_def AuthProvider_effect_3_def AuthProvider_3_def getItem_def)
qed

section \<open>The expiry boundary of the Access Guard\<close>

text \<open>
  Claim C3. A token issued by the Credential Issuer at time \<open>t0\<close> expires at
  \<open>t0 + lifetime\<close>; presented with the issuing secret, \<open>authorize\<close> yields the subject
  at every time strictly before the expiry and fails with Unauthenticated at the
  expiry instant and at every later time.
\<close>

theorem authorize_until_expiry:
  assumes "issueToken H sign secret lifetime t0 store ident password = Inr tok"
  shows "expiry tok = t0 + lifetime
     \<and> authorize sign secret now (Some (Bearer tok)) =
         (if now < expiry tok then Inr (subject tok) else Inl Unauthenticated)
     \<and> authorize sign secret (expiry tok) (Some (Bearer tok)) = Inl Unauthenticated"
proof -
  from assms obtain u where tok: "tok = issue sign secret lifetime t0 u"
    by (auto simp: issueToken_def split: option.splits if_splits)
  show ?thesis
    by (simp add: tok issue_def authorize_def payload_def)
qed

text \<open>
  The theorem for a store holding one user, a login at time 1000 and a lifetime of
  3600: the token is accepted at 4599 and refused at 4600.
\<close>

theorem authorize_until_expiry_witness:
  "issueToken (\<lambda>s p. s @ p) (\<lambda>k (sub, i, e). k @ sub) ''key'' 3600 1000
      [\<lparr>user_id = ''u1'', login_name = ''alice@example.com'',
        hashedPassword = ''NaClcorrect-horse'', salt = ''NaCl''\<rparr>]
      ''alice@example.com'' ''correct-horse'' = Inr (Token ''u1'' 1000 4600 ''keyu1'')
   \<and> authorize (\<lambda>k (sub, i, e). k @ sub) ''key'' 4599
        (Some (Bearer (Token ''u1'' 1000 4600 ''keyu1''))) = Inr ''u1''
   \<and> authorize (\<lambda>k (sub, i, e). k @ sub) ''key'' 4600
        (Some (Bearer (Token ''u1'' 1000 4600 ''keyu1''))) = Inl Unauthenticated"
proof -
  have h: "issueToken (\<lambda>s p. s @ p) (\<lambda>k (sub, i, e). k @ sub) ''key'' 3600 1000
      [\<lparr>user_id = ''u1'', login_name = ''alice@example.com'',
        hashedPassword = ''NaClcorrect-horse'', salt = ''NaCl''\<rparr>]
      ''alice@example.com'' ''correct-horse'' = Inr (Token ''u1'' 1000 4600 ''keyu1'')"
    by (simp add: issueToken_def findByIdentifier_def issue_def)
  show ?thesis
    using h authorize_until_expiry [OF h, of 4599] authorize_until_expiry [OF h, of 4600]
    by simp
qed

section \<open>The Session Gate at process start\<close>

text \<open>
  Claim C4, as the code has it. A provider started over a storage is Authenticated
  exactly when the storage holds a non-empty string under the client's key (the gate
  tests the token's truthiness, and the empty string is falsy); in the client with the
  \<^verbatim>\<open>isAuthenticated\<close> flag this is the state once the provider's mount effect has run.
  Starting a provider sends no request, and a provider started over the storage that a
  login with a non-empty token left is Authenticated.
\<close>

theorem initial_gate_from_store:
  "(ProtectedRoute (AuthProvider_1 ls) = Authenticated
      \<longleftrightarrow> (\<exists>t. t \<noteq> [] \<and> getItem ls ''authToken'' = Str t))
   \<and> (ProtectedRoute (AuthProvider_2 ls) = Authenticated
      \<longleftrightarrow> (\<exists>t. t \<noteq> [] \<and> getItem ls ''token'' = Str t))
   \<and> (ProtectedRoute_3 (AuthProvider_mount_3 ls) = Authenticated
      \<longleftrightarrow> (\<exists>t. t \<noteq> [] \<and> getItem ls ''token'' = Str t))
   \<and> requests (AuthProvider_1 ls) = []
   \<and> requests (AuthProvider_2 ls) = []
   \<and> requests (AuthProvider_mount_3 ls) = []
   \<and> (t \<noteq> [] \<longrightarrow> ProtectedRoute (AuthProvider_1 (storage (login_1 c (Str t)))) = Authenticated)
   \<and> (t \<noteq> [] \<longrightarrow>
        ProtectedRoute (AuthProvider_2 (storage (setAndPersistToken c (Str t)))) = Authenticated)
   \<and> (t \<noteq> [] \<and> ok status \<longrightarrow>
        ProtectedRoute_3 (AuthProvider_mount_3 (storage (client_of
          (login_3 d email password (Http status (Obj (Str t) msg)))))) = Authenticated)"
proof -
  have g1: "ProtectedRoute (AuthProvider_1 ls) = Authenticated
      \<longleftrightarrow> (\<exists>t. t \<noteq> [] \<and> getItem ls ''authToken'' = Str t)" for ls
    by (simp add: ProtectedRoute_def AuthProvider_1_def truthy_iff)
  have g2: "ProtectedRoute (AuthProvider_2 ls) = Authenticated
      \<longleftrightarrow> (\<exists>t. t \<noteq> [] \<and> getItem ls ''token'' = Str t)" for ls
    by (simp add: ProtectedRoute_def AuthProvider_2_def truthy_iff)
  have g3: "ProtectedRoute_3 (AuthProvider_mount_3 ls) = Authenticated
      \<longleftrightarrow> (\<exists>t. t \<noteq> [] \<and> getItem ls ''token'' = Str t)" for ls
    by (simp add: ProtectedRoute_3_def AuthProvider_mount_3_def AuthProvider_effect_3_def
        AuthProvider_3_def truthy_iff)
  have r: "requests (AuthProvider_1 ls) = []" "requests (AuthProvider_2 ls) = []"
      "requests (AuthProvider_mount_3 ls) = []"
    by (simp_all add: requests_def AuthProvider_1_def AuthProvider_2_def AuthProvider_mount_3_def
        AuthProvider_effect_3_def AuthProvider_3_def)
  have s1: "getItem (storage (login_1 c (Str t))) ''authToken'' = Str t"
    by (simp add: login_1_def store_defs)
  have s2: "t \<noteq> [] \<Longrightarrow> getItem (storage (setAndPersistToken c (Str t))) ''token'' = Str t"
    by (simp add: setAndPersistToken_def store_defs Let_def)
  have s3: "ok status \<Longrightarrow> getItem (storage (client_of
          (login_3 d email password (Http status (Obj (Str t) msg))))) ''token'' = Str t"
    by (simp add: login_3_def apiLogin_def axios_post_def Let_def store_defs)
  show ?thesis
    using g1 [of ls] g2 [of ls] g3 [of ls] r
      g1 [of "storage (login_1 c (Str t))"] s1
      g2 [of "storage (setAndPersistToken c (Str t))"] s2
      g3 [of "storage (client_of (login_3 d email password (Http status (Obj (Str t) msg))))"] s3
    by simp
qed

text \<open>
  The theorem at the empty storage, at a storage holding \<open>abc\<close>, and after a login
  with the token \<open>abc\<close> in each client.
\<close>

theorem initial_gate_from_store_witness:
  "''abc'' \<noteq> [] \<and> ok 200
   \<and> ProtectedRoute (AuthProvider_1 [''authToken'' \<mapsto> ''abc'']) = Authenticated
   \<and> ProtectedRoute (AuthProvider_1 Map.empty) = Anonymous
   \<and> ProtectedRoute (AuthProvider_1 (storage (login_1 (AuthProvider_1 Map.empty) (Str ''abc''))))
       = Authenticated
   \<and> ProtectedRoute (AuthProvider_2 (storage (setAndPersistToken (AuthProvider_2 Map.empty)
        (Str ''abc'')))) = Authenticated
   \<and> ProtectedRoute_3 (AuthProvider_mount_3 (storage (client_of
        (login_3 (AuthProvider_mount_3 Map.empty) ''alice@example.com'' ''correct-horse''
           (Http 200 (Obj (Str ''abc'') Undefined)))))) = Authenticated"
proof -
  have h: "''abc'' \<noteq> []" "ok 200" by (simp_all add: ok_def)
  have a: "ProtectedRoute (AuthProvider_1 Map.empty) = Anonymous"
    using initial_gate_from_store [where ls = Map.empty]
    by (cases "ProtectedRoute (AuthProvider_1 Map.empty)") (simp_all add: getItem_def)
  have b: "ProtectedRoute (AuthProvider_1 [''authToken'' \<mapsto> ''abc'']) = Authenticated"
    using initial_gate_from_store [where ls = "[''authToken'' \<mapsto> ''abc'']"]
    by (simp add: getItem_def)
  show ?thesis
    using h a b initial_gate_from_store [where ls = Map.empty and t = "''abc''"
        and c = "AuthProvider_2 Map.empty" and status = 200
        and d = "AuthProvider_mount_3 Map.empty" and email = "''alice@example.com''"
        and password = "''correct-horse''" and msg = Undefined]
    by (simp add: AuthProvider_1_def AuthProvider_2_def getItem_def)
qed

text \<open>
  Claim C4 as it is written takes any held token. A storage holding the empty string
  under the key holds a value (\<open>getItem\<close> is not \<open>Null\<close>), and the provider started over
  it is Anonymous.
\<close>

theorem initial_gate_counterexample:
  "getItem [''authToken'' \<mapsto> ''''] ''authToken'' = Str ''''
   \<and> ProtectedRoute (AuthProvider_1 [''authToken'' \<mapsto> '''']) = Anonymous"
  by (simp add: getItem_def AuthProvider_1_def ProtectedRoute_def)

section \<open>The Session Store\<close>

lemma login_1_twice: "login_1 (login_1 c t) t = login_1 c t"
  by (simp add: login_1_def store_defs)

lemma logout_1_twice: "logout_1 (logout_1 c) = logout_1 c"
  by (simp add: logout_1_def store_defs)

lemma setAndPersistToken_twice:
  "setAndPersistToken (setAndPersistToken c t) t = setAndPersistToken c t"
  by (simp add: setAndPersistToken_def store_defs Let_def)

lemma logout_2_twice: "logout_2 (logout_2 c) = logout_2 c"
  by (simp add: logout_2_def setAndPersistToken_twice)

lemma apiLogout_twice: "apiLogout (apiLogout c) = apiLogout c"
  by (simp add: apiLogout_def store_defs)

lemma apiLogin_stores:
  assumes "ok status"
  shows "getItem (storage (client_of (apiLogin d email password (Http status (Obj (Str t) msg)))))
     ''token'' = Str t"
  using assms by (simp add: apiLogin_def axios_post_def Let_def store_defs)

text \<open>
  Claim C5, as the code has it. The store's \<open>set\<close> is \<^verbatim>\<open>login\<close> in the first client,
  \<^verbatim>\<open>setAndPersistToken\<close> in the second and the \<^verbatim>\<open>setItem\<close> of a successful
  \<^verbatim>\<open>login\<close> of \<^verbatim>\<open>services/api.ts\<close> in the third; its \<open>clear\<close> is \<^verbatim>\<open>logout\<close>. For every
  token string (in the second client: every non-empty one, since \<^verbatim>\<open>setAndPersistToken\<close>
  removes the key on a falsy token) a \<open>get\<close> right after \<open>set\<close> returns that string; a
  \<open>get\<close> after \<open>clear\<close> returns \<^verbatim>\<open>null\<close>; doing \<open>set\<close> or \<open>clear\<close> twice is doing it
  once; and a second \<open>set\<close> replaces the first token.
\<close>

theorem session_store_round_trip:
  "getItem (storage (login_1 c (Str t))) ''authToken'' = Str t
   \<and> token (login_1 c (Str t)) = Str t
   \<and> (t \<noteq> [] \<longrightarrow> getItem (storage (setAndPersistToken c (Str t))) ''token'' = Str t)
   \<and> token (setAndPersistToken c (Str t)) = Str t
   \<and> (ok status \<longrightarrow>
        getItem (storage (client_of (apiLogin d email password (Http status (Obj (Str t) msg)))))
          ''token'' = Str t)
   \<and> getItem (storage (logout_1 c)) ''authToken'' = Null
   \<and> getItem (storage (logout_2 c)) ''token'' = Null
   \<and> getItem (storage (apiLogout d)) ''token'' = Null
   \<and> login_1 (login_1 c (Str t)) (Str t) = login_1 c (Str t)
   \<and> setAndPersistToken (setAndPersistToken c (Str t)) (Str t) = setAndPersistToken c (Str t)
   \<and> logout_1 (logout_1 c) = logout_1 c
   \<and> logout_2 (logout_2 c) = logout_2 c
   \<and> apiLogout (apiLogout d) = apiLogout d
   \<and> getItem (storage (login_1 (login_1 c (Str t)) (Str t'))) ''authToken'' = Str t'
   \<and> (t' \<noteq> [] \<longrightarrow>
        getItem (storage (setAndPersistToken (setAndPersistToken c (Str t)) (Str t'))) ''token''
          = Str t')"
proof -
  have set_get:
    "getItem (storage (login_1 c (Str t))) ''authToken'' = Str t"
    "token (login_1 c (Str t)) = Str t"
    "t \<noteq> [] \<longrightarrow> getItem (storage (setAndPersistToken c (Str t))) ''token'' = Str t"
    "token (setAndPersistToken c (Str t)) = Str t"
    by (simp_all add: login_1_def setAndPersistToken_def store_defs Let_def)
  have clear_get:
    "getItem (storage (logout_1 c)) ''authToken'' = Null"
    "getItem (storage (logout_2 c)) ''token'' = Null"
    "getItem (storage (apiLogout d)) ''token'' = Null"
    by (simp_all add: logout_1_def logout_2_def apiLogout_def setAndPersistToken_def store_defs
        Let_def)
  have replace:
    "getItem (storage (login_1 (login_1 c (Str t)) (Str t'))) ''authToken'' = Str t'"
    "t' \<noteq> [] \<longrightarrow>
       getItem (storage (setAndPersistToken (setAndPersistToken c (Str t)) (Str t'))) ''token''
         = Str t'"
    by (simp_all add: login_1_def setAndPersistToken_def store_defs Let_def)
  show ?thesis
    using set_get clear_get replace apiLogin_stores [of status d email password t msg]
    by (simp add: login_1_twice logout_1_twice setAndPersistToken_twice logout_2_twice
        apiLogout_twice)
qed

text \<open>
  The theorem for the tokens \<open>abc\<close> and \<open>xyz\<close>, over clients started on the empty
  storage.
\<close>

theorem session_store_round_trip_witness:
  "''abc'' \<noteq> [] \<and> ''xyz'' \<noteq> [] \<and> ok 200
   \<and> getItem (storage (setAndPersistToken (AuthProvider_2 Map.empty) (Str ''abc''))) ''token''
       = Str ''abc''
   \<and> getItem (storage (client_of (apiLogin (AuthProvider_mount_3 Map.empty)
        ''alice@example.com'' ''correct-horse'' (Http 200 (Obj (Str ''abc'') Undefined)))))
        ''token'' = Str ''abc''
   \<and> getItem (storage (setAndPersistToken (setAndPersistToken (AuthProvider_2 Map.empty)
        (Str ''abc'')) (Str ''xyz''))) ''token'' = Str ''xyz''
   \<and> getItem (storage (logout_2 (setAndPersistToken (AuthProvider_2 Map.empty) (Str ''abc''))))
        ''token'' = Null"
proof -
  have h: "''abc'' \<noteq> []" "''xyz'' \<noteq> []" "ok 200" by (simp_all add: ok_def)
  show ?thesis
    using h
      session_store_round_trip [where t = "''abc''" and t' = "''xyz''" and status = 200
        and c = "AuthProvider_2 Map.empty" and d = "AuthProvider_mount_3 Map.empty"
        and email = "''alice@example.com''" and password = "''correct-horse''"
        and msg = Undefined]
      session_store_round_trip [where c = "setAndPersistToken (AuthProvider_2 Map.empty)
        (Str ''abc'')"]
    by simp
qed

text \<open>
  Claim C5 as it is written takes every token string. In the second client a \<open>set\<close> of
  the empty string removes the key, and the \<open>get\<close> that follows returns \<^verbatim>\<open>null\<close>, not
  the string.
\<close>

theorem session_store_counterexample:
  "getItem (storage (setAndPersistToken (AuthProvider_2 [''token'' \<mapsto> ''abc'']) (Str '''')))
     ''token'' = Null"
  by (simp add: setAndPersistToken_def AuthProvider_2_def store_defs Let_def)

section \<open>A failed login tells nothing about the cause\<close>

text \<open>
  Claim C6. Any two login attempts that fail, whatever their identifiers and
  passwords, get the same response: status 401 with the message of
  InvalidCredential. An unknown identifier and a wrong password for a known one are
  two such attempts.
\<close>

theorem failed_login_indistinguishable:
  assumes "issueToken H sign secret lifetime now store ident password = Inl e"
    and "issueToken H sign secret lifetime now' store ident' password' = Inl e'"
  shows "login_response msg (issueToken H sign secret lifetime now store ident password) =
         login_response msg (issueToken H sign secret lifetime now' store ident' password')
     \<and> login_response msg (issueToken H sign secret lifetime now store ident password) =
         (401, Inl (msg InvalidCredential))"
proof -
  have "e = InvalidCredential" "e' = InvalidCredential"
    using assms by (auto simp: issueToken_def split: option.splits if_splits)
  with assms show ?thesis
    by (simp add: login_response_def status_of_def)
qed

text \<open>
  The scenario of the specification: the store holds \<open>alice@example.com\<close> with the
  password \<open>correct-horse\<close>. The wrong password for her and any password for
  \<open>nobody@example.com\<close> get the same 401, and her own password gets 200.
\<close>

theorem failed_login_indistinguishable_witness:
  "login_response (\<lambda>e. ''Invalid credentials'')
     (issueToken (\<lambda>s p. s @ p) (\<lambda>k (sub, i, e). k @ sub) ''key'' 3600 1000
        [\<lparr>user_id = ''u1'', login_name = ''alice@example.com'',
          hashedPassword = ''NaClcorrect-horse'', salt = ''NaCl''\<rparr>]
        ''alice@example.com'' ''wrong'') =
   login_response (\<lambda>e. ''Invalid credentials'')
     (issueToken (\<lambda>s p. s @ p) (\<lambda>k (sub, i, e). k @ sub) ''key'' 3600 1000
        [\<lparr>user_id = ''u1'', login_name = ''alice@example.com'',
          hashedPassword = ''NaClcorrect-horse'', salt = ''NaCl''\<rparr>]
        ''nobody@example.com'' ''correct-horse'')
   \<and> login_response (\<lambda>e. ''Invalid credentials'')
     (issueToken (\<lambda>s p. s @ p) (\<lambda>k (sub, i, e). k @ sub) ''key'' 3600 1000
        [\<lparr>user_id = ''u1'', login_name = ''alice@example.com'',
          hashedPassword = ''NaClcorrect-horse'', salt = ''NaCl''\<rparr>]
        ''alice@example.com'' ''wrong'') = (401, Inl ''Invalid credentials'')
   \<and> fst (login_response (\<lambda>e. ''Invalid credentials'')
     (issueToken (\<lambda>s p. s @ p) (\<lambda>k (sub, i, e). k @ sub) ''key'' 3600 1000
        [\<lparr>user_id = ''u1'', login_name = ''alice@example.com'',
          hashedPassword = ''NaClcorrect-horse'', salt = ''NaCl''\<rparr>]
        ''alice@example.com'' ''correct-horse'')) = 200"
proof -
  let ?store = "[\<lparr>user_id = ''u1'', login_name = ''alice@example.com'',
          hashedPassword = ''NaClcorrect-horse'', salt = ''NaCl''\<rparr>]"
  let ?issue = "issueToken (\<lambda>s p. s @ p) (\<lambda>k (sub, i, e). k @ sub) ''key'' 3600 1000 ?store"
  have a: "?issue ''alice@example.com'' ''wrong'' = Inl InvalidCredential"
    by (simp add: issueToken_def findByIdentifier_def)
  have b: "?issue ''nobody@example.com'' ''correct-horse'' = Inl InvalidCredential"
    by (simp add: issueToken_def findByIdentifier_def)
  have c: "fst (login_response (\<lambda>e. ''Invalid credentials'')
      (?issue ''alice@example.com'' ''correct-horse'')) = 200"
    by (simp add: issueToken_def findByIdentifier_def login_response_def)
  show ?thesis
    using failed_login_indistinguishable [OF a b, of "\<lambda>e. ''Invalid credentials''"] c
    by blast
qed

section \<open>Where the server places the Access Guard\<close>

lemma lower_literals [simp]:
  "lower ''/'' = ''/''"
  "lower ''/assets'' = ''/assets''"
  "lower ''/auth/register'' = ''/auth/register''"
  "lower ''/posts'' = ''/posts''"
  "lower ''/auth'' = ''/auth''"
  "lower ''/users'' = ''/users''"
  by (simp_all add: lower_def to_lower_def)

lemma lower_append: "lower (xs @ ys) = lower xs @ lower ys"
  by (simp add: lower_def)



















section \<open>Logout\<close>




section \<open>A failed login\<close>

lemma failure_fetch_json:
  assumes "res = NetworkFailure \<or> (res = Http status data \<and> \<not> ok status)"
  shows "fetch_json res = None
     \<or> (\<exists>status data. fetch_json res = Some (status, data) \<and> \<not> ok status)"
  using assms by (cases data) (auto simp: fetch_json_def)

lemma Login_handleSubmit_1_failure:
  assumes "fetch_json res = None
     \<or> (\<exists>status data. fetch_json res = Some (status, data) \<and> \<not> ok status)"
  shows "storage (Login_handleSubmit_1 c email password res) = storage c
     \<and> token (Login_handleSubmit_1 c email password res) = token c
     \<and> (\<exists>err. trace (Login_handleSubmit_1 c email password res) =
           trace c @ [Fetch \<lparr>http_method = ''POST'', url = API_URL @ ''/users/login'',
                             headers = [(''Content-Type'', ''application/json'')],
                             body = [(''email'', S email), (''password'', S password)]\<rparr>,
                      SetError err])"
  using assms by (auto simp: Login_handleSubmit_1_def Let_def)

lemma Login_handleSubmit_2_failure:
  assumes "fetch_json res = None
     \<or> (\<exists>status data. fetch_json res = Some (status, data) \<and> \<not> ok status)"
  shows "storage (Login_handleSubmit_2 c email password res) = storage c
     \<and> token (Login_handleSubmit_2 c email password res) = token c
     \<and> (\<exists>err. trace (Login_handleSubmit_2 c email password res) =
           trace c @ [Fetch \<lparr>http_method = ''POST'', url = API_URL @ ''/users/login'',
                             headers = [(''Content-Type'', ''application/json'')],
                             body = [(''email'', S email), (''password'', S password)]\<rparr>,
                      SetError err])"
  using assms by (auto simp: Login_handleSubmit_2_def Let_def)

lemma login_3_failure:
  assumes "res = NetworkFailure \<or> (res = Http status data \<and> \<not> ok status)"
  shows "login_3 d email password res =
     Rejected (emit (Fetch \<lparr>http_method = ''POST'', url = API_URL @ ''/auth/login'', headers = [],
                             body = [(''email'', S email), (''password'', S password)]\<rparr>) d)"
  using assms by (auto simp: login_3_def apiLogin_def axios_post_def Let_def)

text \<open>
  Claim C9. When the login request fails (the network fails, or the answer has a
  status that is not ok), \<^verbatim>\<open>Login.handleSubmit\<close> leaves the storage, the provider's
  token or flag and hence the gate as they were, and adds to the trace its request and
  one \<^verbatim>\<open>setError\<close>, nothing else. The same holds in the two clients of \<^verbatim>\<open>index.js\<close> when
  the answer's body is not JSON, whatever its status.
\<close>

theorem failed_login_keeps_session:
  assumes "res = NetworkFailure \<or> (res = Http status data \<and> \<not> ok status)"
  shows "storage (Login_handleSubmit_1 c email password res) = storage c
     \<and> token (Login_handleSubmit_1 c email password res) = token c
     \<and> ProtectedRoute (Login_handleSubmit_1 c email password res) = ProtectedRoute c
     \<and> (\<exists>err. trace (Login_handleSubmit_1 c email password res) =
           trace c @ [Fetch \<lparr>http_method = ''POST'', url = API_URL @ ''/users/login'',
                             headers = [(''Content-Type'', ''application/json'')],
                             body = [(''email'', S email), (''password'', S password)]\<rparr>,
                      SetError err])
     \<and> storage (Login_handleSubmit_2 c email password res) = storage c
     \<and> token (Login_handleSubmit_2 c email password res) = token c
     \<and> ProtectedRoute (Login_handleSubmit_2 c email password res) = ProtectedRoute c
     \<and> (\<exists>err. trace (Login_handleSubmit_2 c email password res) =
           trace c @ [Fetch \<lparr>http_method = ''POST'', url = API_URL @ ''/users/login'',
                             headers = [(''Content-Type'', ''application/json'')],
                             body = [(''email'', S email), (''password'', S password)]\<rparr>,
                      SetError err])
     \<and> storage (Login_handleSubmit_1 c email password (Http status' NotJson)) = storage c
     \<and> token (Login_handleSubmit_1 c email password (Http status' NotJson)) = token c
     \<and> storage (Login_handleSubmit_2 c email password (Http status' NotJson)) = storage c
     \<and> token (Login_handleSubmit_2 c email password (Http status' NotJson)) = token c
     \<and> storage (Login_handleSubmit_3 d email password res) = storage d
     \<and> isAuthenticated (Login_handleSubmit_3 d email password res) = isAuthenticated d
     \<and> ProtectedRoute_3 (Login_handleSubmit_3 d email password res) = ProtectedRoute_3 d
     \<and> trace (Login_handleSubmit_3 d email password res) =
           trace d @ [Fetch \<lparr>http_method = ''POST'', url = API_URL @ ''/auth/login'', headers = [],
                             body = [(''email'', S email), (''password'', S password)]\<rparr>,
                      SetError (Str ''Invalid email or password'')]"
proof -
  note f = failure_fetch_json [OF assms]
  have n: "fetch_json (Http status' NotJson) = None
      \<or> (\<exists>s d. fetch_json (Http status' NotJson) = Some (s, d) \<and> \<not> ok s)"
    by (simp add: fetch_json_def)
  show ?thesis
    using Login_handleSubmit_1_failure [OF f, of c email password]
      Login_handleSubmit_2_failure [OF f, of c email password]
      Login_handleSubmit_1_failure [OF n, of c email password]
      Login_handleSubmit_2_failure [OF n, of c email password]
      login_3_failure [OF assms, of d email password]
    by (simp add: ProtectedRoute_def ProtectedRoute_3_def Login_handleSubmit_3_def)
qed

text \<open>
  The theorem for a wrong password answered with 401, in clients started on the empty
  storage.
\<close>

theorem failed_login_keeps_session_witness:
  "\<not> ok 401
   \<and> storage (Login_handleSubmit_1 (AuthProvider_1 Map.empty) ''alice@example.com'' ''wrong''
        (Http 401 (Obj Undefined (Str ''Invalid credentials'')))) = Map.empty
   \<and> ProtectedRoute (Login_handleSubmit_1 (AuthProvider_1 Map.empty) ''alice@example.com''
        ''wrong'' (Http 401 (Obj Undefined (Str ''Invalid credentials'')))) = Anonymous
   \<and> ProtectedRoute_3 (Login_handleSubmit_3 (AuthProvider_mount_3 Map.empty)
        ''alice@example.com'' ''wrong'' (Http 401 (Obj Undefined (Str ''Invalid credentials''))))
       = Anonymous
   \<and> trace (Login_handleSubmit_3 (AuthProvider_mount_3 Map.empty)
        ''alice@example.com'' ''wrong'' (Http 401 (Obj Undefined (Str ''Invalid credentials''))))
       = [Fetch \<lparr>http_method = ''POST'', url = ''http://localhost:5000/api/auth/login'', headers = [],
                 body = [(''email'', S ''alice@example.com''), (''password'', S ''wrong'')]\<rparr>,
          SetError (Str ''Invalid email or password'')]"
proof -
  have h: "\<not> ok 401" by (simp add: ok_def)
  then have a: "Http 401 (Obj Undefined (Str ''Invalid credentials'')) = NetworkFailure
      \<or> (Http 401 (Obj Undefined (Str ''Invalid credentials''))
            = Http 401 (Obj Undefined (Str ''Invalid credentials'')) \<and> \<not> ok 401)"
    by simp
  show ?thesis
    using h failed_login_keeps_session [OF a, where c = "AuthProvider_1 Map.empty"
        and d = "AuthProvider_mount_3 Map.empty" and email = "''alice@example.com''"
        and password = "''wrong''"]
    by (simp add: AuthProvider_1_def AuthProvider_mount_3_def AuthProvider_effect_3_def
        AuthProvider_3_def ProtectedRoute_def ProtectedRoute_3_def getItem_def API_URL_def)
qed

section \<open>useAuth outside a provider\<close>

text \<open>
  Claim C10, as the code has it. In the two clients of \<^verbatim>\<open>index.js\<close> a call of
  \<^verbatim>\<open>useAuth\<close> with no provider above throws the error \<open>useAuth must be used within an
  AuthProvider\<close>, and under a provider it returns the provider's value. In the client
  of \<^verbatim>\<open>part_000\<close> the context has a default value and \<^verbatim>\<open>useAuth\<close> has no check: with no
  provider above it returns that default, whose flag is false and whose \<^verbatim>\<open>login\<close>,
  \<^verbatim>\<open>register\<close> and \<^verbatim>\<open>logout\<close> do nothing.
\<close>

theorem useAuth_outside_provider:
  "useAuth_1 None = Inl ''useAuth must be used within an AuthProvider''
   \<and> useAuth_2 None = Inl ''useAuth must be used within an AuthProvider''
   \<and> useAuth_1 (Some ctx) = Inr ctx
   \<and> useAuth_2 (Some ctx) = Inr ctx
   \<and> useAuth_3 None = Inr AuthContext_default
   \<and> useAuth_3 (Some ctx') = Inr ctx'
   \<and> ctx_isAuthenticated AuthContext_default = False
   \<and> ctx_login AuthContext_default d email password res = Resolved d ()
   \<and> ctx_register AuthContext_default d username email password res = Resolved d ()
   \<and> ctx_logout AuthContext_default d = d"
proof -
  have throws: "useAuth_1 None = Inl ''useAuth must be used within an AuthProvider''"
      "useAuth_2 None = Inl ''useAuth must be used within an AuthProvider''"
    by (simp_all add: useAuth_1_def useAuth_2_def useContext_def)
  have provided: "useAuth_1 (Some ctx) = Inr ctx" "useAuth_2 (Some ctx) = Inr ctx"
      "useAuth_3 (Some ctx') = Inr ctx'"
    by (simp_all add: useAuth_1_def useAuth_2_def useAuth_3_def useContext_def)
  have dflt: "useAuth_3 None = Inr AuthContext_default"
    by (simp add: useAuth_3_def useContext_def)
  have inert: "ctx_isAuthenticated AuthContext_default = False"
      "ctx_login AuthContext_default d email password res = Resolved d ()"
      "ctx_register AuthContext_default d username email password res = Resolved d ()"
      "ctx_logout AuthContext_default d = d"
    by (simp_all add: AuthContext_default_def)
  from throws provided dflt inert show ?thesis
    by simp
qed

text \<open>
  Claim C10 as it is written has every such call throw. The \<^verbatim>\<open>useAuth\<close> of \<^verbatim>\<open>part_000\<close>
  called with no provider above returns a value, the default context.
\<close>

theorem useAuth_default_counterexample:
  "useAuth_3 None = Inr AuthContext_default"
  by (simp add: useAuth_3_def useContext_def)

end
